theory Spec2Isabelle
  imports Main "HOL-Library.Word"
begin

section \<open>The discovery.ec2 component: configuration model\<close>

text \<open>
  The embedding follows \<^verbatim>\<open>internal/component/discovery/aws/ec2.go\<close>.

  \<^item> Go strings are \<open>string\<close>; the empty string \<^verbatim>\<open>""\<close> is \<open>[]\<close>.
  \<^item> \<^verbatim>\<open>alloytypes.Secret\<close> and \<^verbatim>\<open>promcfg.Secret\<close> are both declared as strings, so
    the conversion \<^verbatim>\<open>promcfg.Secret(args.SecretKey)\<close> keeps the characters.
  \<^item> \<^verbatim>\<open>time.Duration\<close> and \<^verbatim>\<open>model.Duration\<close> are both \<^verbatim>\<open>int64\<close> nanosecond counts: a
    \<open>64 word\<close>; the conversion between them keeps the bits.
  \<^item> \<^verbatim>\<open>Port\<close> is a Go \<^verbatim>\<open>int\<close>. The file only stores and copies it, so it is an \<open>int\<close>.
  \<^item> \<^verbatim>\<open>Filters\<close> is a slice of pointers to filter blocks. The configuration decoder
    allocates one block per \<^verbatim>\<open>filter\<close> stanza, so the model holds the list of the
    blocks pointed to; a \<^verbatim>\<open>nil\<close> entry is outside the model. A \<^verbatim>\<open>nil\<close> slice and
    an empty slice both have length zero and are both the empty list.
  \<^item> \<^verbatim>\<open>config.HTTPClientConfig\<close> is declared in another package: its type is the
    parameter \<open>'h\<close>.
\<close>

record EC2Filter =
  Name :: string
  Values :: "string list"

record 'h EC2Arguments =
  Endpoint :: string
  Region :: string
  AccessKey :: string
  SecretKey :: string
  Profile :: string
  RoleARN :: string
  RefreshInterval :: "64 word"
  Port :: int
  Filters :: "EC2Filter list"
  HTTPClientConfig :: 'h

text \<open>
  The request type of the discovery backend, \<^verbatim>\<open>promaws.EC2SDConfig\<close>, with its filter type
  \<^verbatim>\<open>promaws.EC2Filter\<close>. Their fields carry the same names as the fields above; here they
  are prefixed with \<open>sd_\<close> to tell them apart. \<open>'p\<close> is the backend's HTTP client block.
\<close>

record promaws_EC2Filter =
  sd_Name :: string
  sd_Values :: "string list"

record 'p EC2SDConfig =
  sd_Endpoint :: string
  sd_Region :: string
  sd_AccessKey :: string
  sd_SecretKey :: string
  sd_Profile :: string
  sd_RoleARN :: string
  sd_RefreshInterval :: "64 word"
  sd_Port :: int
  sd_Filters :: "promaws_EC2Filter list"
  sd_HTTPClientConfig :: 'p

section \<open>Convert\<close>

text \<open>
  The loop \<^verbatim>\<open>for _, f := range args.Filters { cfg.Filters = append(cfg.Filters, ...) }\<close>:
  one step per filter, each appending one converted filter to the request built so far.
\<close>

fun append_filters :: "EC2Filter list \<Rightarrow> 'p EC2SDConfig \<Rightarrow> 'p EC2SDConfig" where
  "append_filters [] cfg = cfg"
| "append_filters (f # fs) cfg =
     append_filters fs
       (cfg\<lparr>sd_Filters := sd_Filters cfg @ [\<lparr>sd_Name = Name f, sd_Values = Values f\<rparr>]\<rparr>)"

text \<open>
  \<^verbatim>\<open>Convert\<close> has a value receiver: it works on a copy of the arguments and returns the
  request. \<open>http_Convert\<close> stands for \<^verbatim>\<open>HTTPClientConfig.Convert\<close> of the shared
  configuration package followed by the dereference of the block it returns.
\<close>

definition Convert :: "('h \<Rightarrow> 'p) \<Rightarrow> 'h EC2Arguments \<Rightarrow> 'p EC2SDConfig" where
  "Convert http_Convert args =
     (let cfg = \<lparr>sd_Endpoint = Endpoint args,
                 sd_Region = Region args,
                 sd_AccessKey = AccessKey args,
                 sd_SecretKey = SecretKey args,
                 sd_Profile = Profile args,
                 sd_RoleARN = RoleARN args,
                 sd_RefreshInterval = RefreshInterval args,
                 sd_Port = Port args,
                 sd_Filters = [],
                 sd_HTTPClientConfig = http_Convert (HTTPClientConfig args)\<rparr>
      in append_filters (Filters args) cfg)"

section \<open>SetToDefault\<close>

text \<open>\<^verbatim>\<open>time.Second\<close>, in nanoseconds.\<close>

definition Second :: "64 word" where
  "Second = 1000000000"

text \<open>
  The package variable \<^verbatim>\<open>DefaultEC2SDConfig\<close>. The composite literal names three fields;
  every other field has the zero value of its type. \<open>DefaultHTTPClientConfig\<close> is the
  variable of that name in the shared configuration package.
\<close>

definition DefaultEC2SDConfig :: "'h \<Rightarrow> 'h EC2Arguments" where
  "DefaultEC2SDConfig DefaultHTTPClientConfig =
     \<lparr>Endpoint = [],
      Region = [],
      AccessKey = [],
      SecretKey = [],
      Profile = [],
      RoleARN = [],
      RefreshInterval = 60 * Second,
      Port = 80,
      Filters = [],
      HTTPClientConfig = DefaultHTTPClientConfig\<rparr>"

text \<open>\<^verbatim>\<open>*args = DefaultEC2SDConfig\<close>: the new value of the arguments.\<close>

definition SetToDefault :: "'h \<Rightarrow> 'h EC2Arguments \<Rightarrow> 'h EC2Arguments" where
  "SetToDefault DefaultHTTPClientConfig args = DefaultEC2SDConfig DefaultHTTPClientConfig"

section \<open>Validate\<close>

text \<open>
  A Go \<^verbatim>\<open>error\<close> value as \<^verbatim>\<open>Validate\<close> can return it: one made here by
  \<^verbatim>\<open>errors.New\<close> with its message, or the error value that the AWS SDK handed back,
  passed on as it is. \<^verbatim>\<open>nil\<close> is \<open>None\<close> of \<open>'e error option\<close>.
\<close>

datatype 'e error = errors_New string | sdk_error 'e

text \<open>The result of \<^verbatim>\<open>client.GetRegion\<close>; its field is named \<^verbatim>\<open>Region\<close> in the SDK.\<close>

record GetRegionOutput =
  imds_Region :: string

text \<open>
  The AWS SDK as \<^verbatim>\<open>Validate\<close> meets it: \<^verbatim>\<open>awsConfig.LoadDefaultConfig\<close> returns an
  error or a configuration \<open>'c\<close>, \<^verbatim>\<open>imds.NewFromConfig\<close> builds a client \<open>'k\<close> from it,
  and \<^verbatim>\<open>client.GetRegion\<close> returns an error or the region. Each is called at most once
  in one run of \<^verbatim>\<open>Validate\<close>, so one outcome per call describes the environment.
\<close>

record ('e, 'c, 'k) sdk =
  LoadDefaultConfig :: "'e + 'c"
  NewFromConfig :: "'c \<Rightarrow> 'k"
  GetRegion :: "'k \<Rightarrow> 'e + GetRegionOutput"

text \<open>The calls that reach out of the process, in the order they are made.\<close>

datatype call = Call_LoadDefaultConfig | Call_GetRegion

text \<open>
  \<^verbatim>\<open>Validate\<close> has a pointer receiver: besides the error it returns, it leaves the
  arguments in a new state and has made calls to the SDK.
\<close>

record ('e, 'h) outcome =
  err :: "'e error option"
  args_after :: "'h EC2Arguments"
  calls :: "call list"

text \<open>The loop over the filters: the first filter with no values ends it with an error.\<close>

fun check_filters :: "EC2Filter list \<Rightarrow> 'e error option" where
  "check_filters [] = None"
| "check_filters (f # fs) =
     (if length (Values f) = 0
      then Some (errors_New ''EC2 SD configuration filter values cannot be empty'')
      else check_filters fs)"

definition Validate :: "('e, 'c, 'k) sdk \<Rightarrow> 'h EC2Arguments \<Rightarrow> ('e, 'h) outcome" where
  "Validate aws args =
     (if Region args = []
      then
        (case LoadDefaultConfig aws of
           Inl e \<Rightarrow>
             \<lparr>err = Some (sdk_error e), args_after = args, calls = [Call_LoadDefaultConfig]\<rparr>
         | Inr cfg \<Rightarrow>
             (let client = NewFromConfig aws cfg in
              case GetRegion aws client of
                Inl e \<Rightarrow>
                  \<lparr>err = Some (errors_New ''EC2 SD configuration requires a region''),
                   args_after = args,
                   calls = [Call_LoadDefaultConfig, Call_GetRegion]\<rparr>
              | Inr region \<Rightarrow>
                  (let args' = args\<lparr>Region := imds_Region region\<rparr> in
                   \<lparr>err = check_filters (Filters args'),
                    args_after = args',
                    calls = [Call_LoadDefaultConfig, Call_GetRegion]\<rparr>)))
      else
        \<lparr>err = check_filters (Filters args), args_after = args, calls = []\<rparr>)"

section \<open>Example environments and configurations\<close>

text \<open>
  Three environments, with the SDK's error values as their messages: one where the
  instance metadata service answers \<^verbatim>\<open>us-east-1\<close>, one where the ambient configuration
  cannot be loaded, and one where it loads but the metadata service does not answer.
\<close>

definition sdk_us_east_1 :: "(string, unit, unit) sdk" where
  "sdk_us_east_1 =
     \<lparr>LoadDefaultConfig = Inr (),
      NewFromConfig = (\<lambda>cfg. ()),
      GetRegion = (\<lambda>client. Inr \<lparr>imds_Region = ''us-east-1''\<rparr>)\<rparr>"

definition sdk_load_fails :: "(string, unit, unit) sdk" where
  "sdk_load_fails =
     \<lparr>LoadDefaultConfig = Inl ''failed to load shared config file'',
      NewFromConfig = (\<lambda>cfg. ()),
      GetRegion = (\<lambda>client. Inr \<lparr>imds_Region = ''us-east-1''\<rparr>)\<rparr>"

definition sdk_imds_fails :: "(string, unit, unit) sdk" where
  "sdk_imds_fails =
     \<lparr>LoadDefaultConfig = Inr (),
      NewFromConfig = (\<lambda>cfg. ()),
      GetRegion = (\<lambda>client. Inl ''request canceled, context deadline exceeded'')\<rparr>"

text \<open>
  A configuration as a user writes it, with a region, a port and one filter; then
  variations of it: no region, a filter without values (with and without a region), a
  filter without a name, and two filters of which the second has no values.
\<close>

definition args_eu :: "unit EC2Arguments" where
  "args_eu =
     \<lparr>Endpoint = [],
      Region = ''eu-west-1'',
      AccessKey = ''AKIDEXAMPLE'',
      SecretKey = ''hunter2'',
      Profile = [],
      RoleARN = [],
      RefreshInterval = 30 * Second,
      Port = 9100,
      Filters = [\<lparr>Name = ''tag:env'', Values = [''prod'', ''staging'']\<rparr>],
      HTTPClientConfig = ()\<rparr>"

definition args_no_region :: "unit EC2Arguments" where
  "args_no_region = args_eu\<lparr>Region := []\<rparr>"

definition args_eu_no_values :: "unit EC2Arguments" where
  "args_eu_no_values = args_eu\<lparr>Filters := [\<lparr>Name = ''tag:env'', Values = []\<rparr>]\<rparr>"

definition args_no_region_no_values :: "unit EC2Arguments" where
  "args_no_region_no_values = args_eu_no_values\<lparr>Region := []\<rparr>"

definition args_eu_no_name :: "unit EC2Arguments" where
  "args_eu_no_name = args_eu\<lparr>Filters := [\<lparr>Name = [], Values = [''prod'']\<rparr>]\<rparr>"

definition args_two_filters :: "unit EC2Arguments" where
  "args_two_filters =
     args_eu\<lparr>Filters := [\<lparr>Name = ''tag:env'', Values = [''prod'']\<rparr>,
                          \<lparr>Name = ''instance-type'', Values = []\<rparr>]\<rparr>"

section \<open>The two loops\<close>

text \<open>
  The filter loop of \<^verbatim>\<open>Convert\<close> appends, in order, one converted filter per input filter
  to whatever the request already holds.
\<close>

lemma append_filters_eq:
  "append_filters fs cfg =
     cfg\<lparr>sd_Filters := sd_Filters cfg @ map (\<lambda>f. \<lparr>sd_Name = Name f, sd_Values = Values f\<rparr>) fs\<rparr>"
  by (induction fs arbitrary: cfg) simp_all

lemma Convert_filters:
  "sd_Filters (Convert h args) = map (\<lambda>f. \<lparr>sd_Name = Name f, sd_Values = Values f\<rparr>) (Filters args)"
  by (simp add: Convert_def append_filters_eq)

text \<open>
  The filter loop of \<^verbatim>\<open>Validate\<close> returns \<^verbatim>\<open>nil\<close> exactly when every filter has a value, and
  the one error it can return otherwise.
\<close>

lemma check_filters_None_iff:
  "(check_filters fs = None) = (\<forall>f\<in>set fs. Values f \<noteq> [])"
  by (induction fs) simp_all

lemma check_filters_Some:
  "f \<in> set fs \<Longrightarrow> Values f = [] \<Longrightarrow>
   check_filters fs = Some (errors_New ''EC2 SD configuration filter values cannot be empty'')"
  by (induction fs) auto

section \<open>Validate, path by path\<close>

lemma Validate_region_set_eq:
  "Region args \<noteq> [] \<Longrightarrow>
   Validate aws args = \<lparr>err = check_filters (Filters args), args_after = args, calls = []\<rparr>"
  by (simp add: Validate_def)

lemma Validate_Filters: "Filters (args_after (Validate aws args)) = Filters args"
  by (simp add: Validate_def Let_def split: sum.split)

lemma Validate_err_cases:
  "err (Validate aws args) =
     (if Region args \<noteq> [] then check_filters (Filters args)
      else case LoadDefaultConfig aws of
             Inl e \<Rightarrow> Some (sdk_error e)
           | Inr c \<Rightarrow> (case GetRegion aws (NewFromConfig aws c) of
                         Inl e \<Rightarrow> Some (errors_New ''EC2 SD configuration requires a region'')
                       | Inr r \<Rightarrow> check_filters (Filters args)))"
  by (simp add: Validate_def Let_def split: sum.split)

section \<open>Properties of Validate with respect to filters and the probe\<close>

text \<open>
  C1, as the code has it. \<^verbatim>\<open>Validate\<close> looks at the region before it looks at the
  filters. The configuration below has no region and a filter without values: both SDK
  calls are made before the filter is rejected, and when the ambient configuration does
  not load, the error returned is the SDK's, not the one about filter values.
\<close>

theorem Validate_empty_values_probes_counterexample:
  "\<lparr>Name = ''tag:env'', Values = []\<rparr> \<in> set (Filters args_no_region_no_values) \<and>
   calls (Validate sdk_us_east_1 args_no_region_no_values) = [Call_LoadDefaultConfig, Call_GetRegion] \<and>
   err (Validate sdk_load_fails args_no_region_no_values) = Some (sdk_error ''failed to load shared config file'')"
  by (simp add: Validate_def args_no_region_no_values_def args_eu_no_values_def args_eu_def
      sdk_us_east_1_def sdk_load_fails_def)

text \<open>
  C1, amended. For every configuration containing a filter with zero values,
  \<^verbatim>\<open>Validate\<close> returns an error. When the region is set, it makes no call to the SDK and
  the error is the one about empty filter values. When the region is unset, the
  resolution probe is attempted first (\<^verbatim>\<open>LoadDefaultConfig\<close> is always called), and when
  the probe succeeds the error is again the one about empty filter values.
\<close>

theorem Validate_rejects_empty_values:
  assumes "f \<in> set (Filters args)" and "Values f = []"
  shows "err (Validate aws args) \<noteq> None \<and>
         (Region args \<noteq> [] \<longrightarrow>
            calls (Validate aws args) = [] \<and>
            err (Validate aws args) =
              Some (errors_New ''EC2 SD configuration filter values cannot be empty'')) \<and>
         (Region args = [] \<longrightarrow>
            (\<exists>cs. calls (Validate aws args) = Call_LoadDefaultConfig # cs) \<and>
            (\<forall>c r. LoadDefaultConfig aws = Inr c \<longrightarrow> GetRegion aws (NewFromConfig aws c) = Inr r \<longrightarrow>
               err (Validate aws args) =
                 Some (errors_New ''EC2 SD configuration filter values cannot be empty'')))"
proof -
  have bad: "check_filters (Filters args) =
      Some (errors_New ''EC2 SD configuration filter values cannot be empty'')"
    using assms by (rule check_filters_Some)
  have fails: "err (Validate aws args) \<noteq> None"
    by (simp add: Validate_err_cases bad split: sum.split)
  have set: "Region args \<noteq> [] \<Longrightarrow> calls (Validate aws args) = [] \<and>
      err (Validate aws args) =
        Some (errors_New ''EC2 SD configuration filter values cannot be empty'')"
    by (simp add: Validate_region_set_eq bad)
  have unset_calls: "Region args = [] \<Longrightarrow>
      \<exists>cs. calls (Validate aws args) = Call_LoadDefaultConfig # cs"
    by (simp add: Validate_def Let_def split: sum.split)
  have unset_err: "Region args = [] \<Longrightarrow> LoadDefaultConfig aws = Inr c \<Longrightarrow>
      GetRegion aws (NewFromConfig aws c) = Inr r \<Longrightarrow>
      err (Validate aws args) =
        Some (errors_New ''EC2 SD configuration filter values cannot be empty'')" for c r
    by (simp add: Validate_err_cases bad)
  from fails set unset_calls unset_err show ?thesis by blast
qed

theorem Validate_rejects_empty_values_witness:
  "\<lparr>Name = ''tag:env'', Values = []\<rparr> \<in> set (Filters args_eu_no_values) \<and>
   Region args_eu_no_values = ''eu-west-1'' \<and>
   err (Validate sdk_us_east_1 args_eu_no_values) =
     Some (errors_New ''EC2 SD configuration filter values cannot be empty'') \<and>
   calls (Validate sdk_us_east_1 args_eu_no_values) = []"
proof -
  have mem: "\<lparr>Name = ''tag:env'', Values = []\<rparr> \<in> set (Filters args_eu_no_values)"
    by (simp add: args_eu_no_values_def)
  have empty: "Values \<lparr>Name = ''tag:env'', Values = []\<rparr> = []"
    by simp
  have reg: "Region args_eu_no_values = ''eu-west-1''"
    by (simp add: args_eu_no_values_def args_eu_def)
  from Validate_rejects_empty_values [OF mem empty, of sdk_us_east_1] mem reg
  show ?thesis by simp
qed

text \<open>
  C2, as the code has it. With the region unset, a failure of
  \<^verbatim>\<open>LoadDefaultConfig\<close> is returned to the caller as the SDK produced it; it is not
  replaced by the error that asks for a region.
\<close>

theorem Validate_load_failure_counterexample:
  "Region args_no_region = [] \<and>
   LoadDefaultConfig sdk_load_fails = Inl ''failed to load shared config file'' \<and>
   err (Validate sdk_load_fails args_no_region) =
     Some (sdk_error ''failed to load shared config file'') \<and>
   err (Validate sdk_load_fails args_no_region) \<noteq>
     Some (errors_New ''EC2 SD configuration requires a region'')"
  by (simp add: Validate_def args_no_region_def args_eu_def sdk_load_fails_def)

text \<open>
  C2, amended. For every configuration with the region unset: when
  \<^verbatim>\<open>LoadDefaultConfig\<close> fails, \<^verbatim>\<open>Validate\<close> returns that error unchanged and does not
  query the region; when \<^verbatim>\<open>LoadDefaultConfig\<close> succeeds and \<^verbatim>\<open>GetRegion\<close> fails,
  \<^verbatim>\<open>Validate\<close> returns the error \<^verbatim>\<open>EC2 SD configuration requires a region\<close> in place
  of the query's own error.
\<close>

theorem Validate_probe_failure:
  assumes "Region args = []"
  shows "(\<forall>e. LoadDefaultConfig aws = Inl e \<longrightarrow>
            err (Validate aws args) = Some (sdk_error e) \<and>
            calls (Validate aws args) = [Call_LoadDefaultConfig]) \<and>
         (\<forall>c e. LoadDefaultConfig aws = Inr c \<longrightarrow> GetRegion aws (NewFromConfig aws c) = Inl e \<longrightarrow>
            err (Validate aws args) = Some (errors_New ''EC2 SD configuration requires a region'') \<and>
            calls (Validate aws args) = [Call_LoadDefaultConfig, Call_GetRegion])"
  using assms by (simp add: Validate_def)

theorem Validate_probe_failure_witness:
  "Region args_no_region = [] \<and>
   LoadDefaultConfig sdk_imds_fails = Inr () \<and>
   GetRegion sdk_imds_fails (NewFromConfig sdk_imds_fails ()) =
     Inl ''request canceled, context deadline exceeded'' \<and>
   err (Validate sdk_imds_fails args_no_region) =
     Some (errors_New ''EC2 SD configuration requires a region'') \<and>
   calls (Validate sdk_imds_fails args_no_region) = [Call_LoadDefaultConfig, Call_GetRegion]"
proof -
  have reg: "Region args_no_region = []"
    by (simp add: args_no_region_def)
  have load: "LoadDefaultConfig sdk_imds_fails = Inr ()"
    by (simp add: sdk_imds_fails_def)
  have query: "GetRegion sdk_imds_fails (NewFromConfig sdk_imds_fails ()) =
      Inl ''request canceled, context deadline exceeded''"
    by (simp add: sdk_imds_fails_def)
  from Validate_probe_failure [OF reg, of sdk_imds_fails] reg load query
  show ?thesis by simp
qed

section \<open>Properties of SetToDefault\<close>

text \<open>
  C3, as the code has it. \<^verbatim>\<open>SetToDefault\<close> does not keep fields that were already set:
  a port of 9100 becomes 80 and a region that was written is cleared.
\<close>

theorem SetToDefault_keeps_set_fields_counterexample:
  "Port args_eu = 9100 \<and> Port (SetToDefault () args_eu) = 80 \<and>
   Region args_eu = ''eu-west-1'' \<and> Region (SetToDefault () args_eu) = []"
  by (simp add: SetToDefault_def DefaultEC2SDConfig_def args_eu_def)

text \<open>
  C3, amended. For every configuration, \<^verbatim>\<open>SetToDefault\<close> replaces the whole
  configuration by the package default: port 80, refresh interval 60 seconds (sixty
  times \<open>10\<^sup>9\<close> nanoseconds, which fits the 64-bit duration), the default HTTP client
  block, and the zero value in every other field, whatever the fields held before.
\<close>

theorem SetToDefault_overwrites:
  "SetToDefault d args = DefaultEC2SDConfig d \<and>
   Port (SetToDefault d args) = 80 \<and>
   RefreshInterval (SetToDefault d args) = 60 * Second \<and>
   unat (RefreshInterval (SetToDefault d args)) = 60 * 1000000000 \<and>
   HTTPClientConfig (SetToDefault d args) = d \<and>
   Endpoint (SetToDefault d args) = [] \<and>
   Region (SetToDefault d args) = [] \<and>
   AccessKey (SetToDefault d args) = [] \<and>
   SecretKey (SetToDefault d args) = [] \<and>
   Profile (SetToDefault d args) = [] \<and>
   RoleARN (SetToDefault d args) = [] \<and>
   Filters (SetToDefault d args) = []"
  by (simp add: SetToDefault_def DefaultEC2SDConfig_def Second_def)

section \<open>What a validated configuration guarantees\<close>

text \<open>
  C4, as the code has it. \<^verbatim>\<open>Validate\<close> never reads a filter's name: a configuration
  whose only filter has an empty name passes, and \<^verbatim>\<open>Convert\<close> hands that filter on.
\<close>

theorem Validate_accepts_empty_name_counterexample:
  "err (Validate sdk_us_east_1 args_eu_no_name) = None \<and>
   \<lparr>Name = [], Values = [''prod'']\<rparr> \<in> set (Filters args_eu_no_name) \<and>
   sd_Filters (Convert id (args_after (Validate sdk_us_east_1 args_eu_no_name))) =
     [\<lparr>sd_Name = [], sd_Values = [''prod'']\<rparr>]"
  by (simp add: Validate_def Convert_def args_eu_no_name_def args_eu_def)

text \<open>
  C4, amended. For every configuration that passes \<^verbatim>\<open>Validate\<close>, no filter has an
  empty value set, in the validated configuration and in the request that
  \<^verbatim>\<open>Convert\<close> builds from it. Nothing is guaranteed about filter names.
\<close>

theorem Validate_ok_values_nonempty:
  fixes aws :: "('e, 'c, 'k) sdk"
  assumes "err (Validate aws args) = None"
  shows "(\<forall>f\<in>set (Filters (args_after (Validate aws args))). Values f \<noteq> []) \<and>
         (\<forall>g\<in>set (sd_Filters (Convert h (args_after (Validate aws args)))). sd_Values g \<noteq> [])"
proof -
  have "(check_filters (Filters args) :: 'e error option) = None"
    using assms by (simp add: Validate_err_cases split: if_splits sum.splits)
  then have "\<forall>f\<in>set (Filters args). Values f \<noteq> []"
    by (simp add: check_filters_None_iff)
  then show ?thesis
    by (simp add: Validate_Filters Convert_filters)
qed

theorem Validate_ok_values_nonempty_witness:
  "err (Validate sdk_us_east_1 args_eu) = None \<and>
   Filters (args_after (Validate sdk_us_east_1 args_eu)) =
     [\<lparr>Name = ''tag:env'', Values = [''prod'', ''staging'']\<rparr>] \<and>
   Values \<lparr>Name = ''tag:env'', Values = [''prod'', ''staging'']\<rparr> \<noteq> []"
proof -
  have ok: "err (Validate sdk_us_east_1 args_eu) = None"
    by (simp add: Validate_def args_eu_def)
  have fs: "Filters (args_after (Validate sdk_us_east_1 args_eu)) =
      [\<lparr>Name = ''tag:env'', Values = [''prod'', ''staging'']\<rparr>]"
    by (simp add: Validate_def args_eu_def)
  from Validate_ok_values_nonempty [OF ok, of id] ok fs
  show ?thesis by simp
qed

section \<open>Region resolution\<close>

text \<open>
  C5. For every configuration with the region unset, when the probe succeeds and returns
  \<^verbatim>\<open>us-east-1\<close> and every filter has a value, \<^verbatim>\<open>Validate\<close> succeeds and the
  configuration it leaves has the region \<^verbatim>\<open>us-east-1\<close>, every other field as before.
\<close>

theorem Validate_resolves_us_east_1:
  fixes aws :: "('e, 'c, 'k) sdk"
  assumes "Region args = []"
    and "LoadDefaultConfig aws = Inr c"
    and "GetRegion aws (NewFromConfig aws c) = Inr out"
    and "imds_Region out = ''us-east-1''"
    and "\<forall>f\<in>set (Filters args). Values f \<noteq> []"
  shows "err (Validate aws args) = None \<and>
         Region (args_after (Validate aws args)) = ''us-east-1'' \<and>
         args_after (Validate aws args) = args\<lparr>Region := ''us-east-1''\<rparr>"
proof -
  have valid: "(check_filters (Filters args) :: 'e error option) = None"
    using assms(5) by (simp add: check_filters_None_iff)
  have "Validate aws args =
      \<lparr>err = check_filters (Filters args),
       args_after = args\<lparr>Region := ''us-east-1''\<rparr>,
       calls = [Call_LoadDefaultConfig, Call_GetRegion]\<rparr>"
    using assms(1-4) by (simp add: Validate_def)
  with valid show ?thesis by simp
qed

theorem Validate_resolves_us_east_1_witness:
  "Region args_no_region = [] \<and>
   LoadDefaultConfig sdk_us_east_1 = Inr () \<and>
   GetRegion sdk_us_east_1 (NewFromConfig sdk_us_east_1 ()) = Inr \<lparr>imds_Region = ''us-east-1''\<rparr> \<and>
   Filters args_no_region = [\<lparr>Name = ''tag:env'', Values = [''prod'', ''staging'']\<rparr>] \<and>
   err (Validate sdk_us_east_1 args_no_region) = None \<and>
   Region (args_after (Validate sdk_us_east_1 args_no_region)) = ''us-east-1''"
proof -
  have reg: "Region args_no_region = []"
    by (simp add: args_no_region_def)
  have load: "LoadDefaultConfig sdk_us_east_1 = Inr ()"
    by (simp add: sdk_us_east_1_def)
  have query: "GetRegion sdk_us_east_1 (NewFromConfig sdk_us_east_1 ()) =
      Inr \<lparr>imds_Region = ''us-east-1''\<rparr>"
    by (simp add: sdk_us_east_1_def)
  have out: "imds_Region \<lparr>imds_Region = ''us-east-1''\<rparr> = ''us-east-1''"
    by simp
  have fs: "Filters args_no_region = [\<lparr>Name = ''tag:env'', Values = [''prod'', ''staging'']\<rparr>]"
    by (simp add: args_no_region_def args_eu_def)
  have valid: "\<forall>f\<in>set (Filters args_no_region). Values f \<noteq> []"
    by (simp add: fs)
  from Validate_resolves_us_east_1 [OF reg load query out valid] reg load query fs
  show ?thesis by simp
qed

text \<open>
  C6. For every configuration whose region is set, \<^verbatim>\<open>Validate\<close> makes no call of the
  resolution probe (the list of calls is empty, its length zero), and it succeeds if and
  only if every filter has at least one value.
\<close>

theorem Validate_region_set_no_probe:
  fixes aws :: "('e, 'c, 'k) sdk"
  assumes "Region args \<noteq> []"
  shows "calls (Validate aws args) = [] \<and>
         length (calls (Validate aws args)) = 0 \<and>
         (err (Validate aws args) = None \<longleftrightarrow> (\<forall>f\<in>set (Filters args). 1 \<le> length (Values f)))"
proof -
  have "(check_filters (Filters args) :: 'e error option) = None \<longleftrightarrow>
      (\<forall>f\<in>set (Filters args). 1 \<le> length (Values f))"
    by (simp add: check_filters_None_iff Suc_le_eq)
  with assms show ?thesis
    by (simp add: Validate_region_set_eq)
qed

theorem Validate_region_set_no_probe_witness:
  "Region args_eu = ''eu-west-1'' \<and>
   calls (Validate sdk_imds_fails args_eu) = [] \<and>
   err (Validate sdk_imds_fails args_eu) = None \<and>
   Filters args_eu = [\<lparr>Name = ''tag:env'', Values = [''prod'', ''staging'']\<rparr>] \<and>
   calls (Validate sdk_imds_fails args_two_filters) = [] \<and>
   err (Validate sdk_imds_fails args_two_filters) \<noteq> None"
proof -
  have reg: "Region args_eu = ''eu-west-1''"
    by (simp add: args_eu_def)
  then have set: "Region args_eu \<noteq> []"
    by simp
  have fs: "Filters args_eu = [\<lparr>Name = ''tag:env'', Values = [''prod'', ''staging'']\<rparr>]"
    by (simp add: args_eu_def)
  have set2: "Region args_two_filters \<noteq> []"
    by (simp add: args_two_filters_def args_eu_def)
  have fs2: "Filters args_two_filters =
      [\<lparr>Name = ''tag:env'', Values = [''prod'']\<rparr>, \<lparr>Name = ''instance-type'', Values = []\<rparr>]"
    by (simp add: args_two_filters_def)
  from Validate_region_set_no_probe [OF set, of sdk_imds_fails]
    Validate_region_set_no_probe [OF set2, of sdk_imds_fails] reg fs fs2
  show ?thesis by simp
qed

section \<open>Idempotence of SetToDefault\<close>

text \<open>
  C7. \<^verbatim>\<open>SetToDefault\<close> is idempotent: applying it twice to any configuration gives the
  same configuration as applying it once.
\<close>

theorem SetToDefault_idempotent:
  "SetToDefault d (SetToDefault d args) = SetToDefault d args"
  by (simp add: SetToDefault_def)

section \<open>Properties of Convert\<close>

text \<open>
  C8. For every configuration, validated or not, \<^verbatim>\<open>Convert\<close> returns a request whose
  endpoint, region, access key, secret key, profile, role ARN, refresh interval and port
  are those of the configuration, whose HTTP client block is the converted block of the
  configuration, and whose filter list has the length of the configuration's, the filter
  at each position carrying the name and the values of the configuration's filter at
  that position. \<^verbatim>\<open>Convert\<close> returns nothing but the request, checks nothing and changes
  nothing: the example it is run on below is one that \<^verbatim>\<open>Validate\<close> rejects.
\<close>

theorem Convert_copies_every_field:
  "sd_Endpoint (Convert h args) = Endpoint args \<and>
   sd_Region (Convert h args) = Region args \<and>
   sd_AccessKey (Convert h args) = AccessKey args \<and>
   sd_SecretKey (Convert h args) = SecretKey args \<and>
   sd_Profile (Convert h args) = Profile args \<and>
   sd_RoleARN (Convert h args) = RoleARN args \<and>
   sd_RefreshInterval (Convert h args) = RefreshInterval args \<and>
   sd_Port (Convert h args) = Port args \<and>
   sd_HTTPClientConfig (Convert h args) = h (HTTPClientConfig args) \<and>
   length (sd_Filters (Convert h args)) = length (Filters args) \<and>
   (\<forall>i<length (Filters args).
      sd_Name (sd_Filters (Convert h args) ! i) = Name (Filters args ! i) \<and>
      sd_Values (sd_Filters (Convert h args) ! i) = Values (Filters args ! i))"
proof -
  have fields: "Convert h args =
      \<lparr>sd_Endpoint = Endpoint args, sd_Region = Region args, sd_AccessKey = AccessKey args,
       sd_SecretKey = SecretKey args, sd_Profile = Profile args, sd_RoleARN = RoleARN args,
       sd_RefreshInterval = RefreshInterval args, sd_Port = Port args,
       sd_Filters = map (\<lambda>f. \<lparr>sd_Name = Name f, sd_Values = Values f\<rparr>) (Filters args),
       sd_HTTPClientConfig = h (HTTPClientConfig args)\<rparr>"
    by (simp add: Convert_def append_filters_eq)
  show ?thesis
    by (simp add: fields)
qed

theorem Convert_copies_every_field_witness:
  "err (Validate sdk_us_east_1 args_two_filters) \<noteq> None \<and>
   sd_Region (Convert id args_two_filters) = ''eu-west-1'' \<and>
   sd_Port (Convert id args_two_filters) = 9100 \<and>
   length (sd_Filters (Convert id args_two_filters)) = 2 \<and>
   sd_Name (sd_Filters (Convert id args_two_filters) ! 0) = ''tag:env'' \<and>
   sd_Values (sd_Filters (Convert id args_two_filters) ! 0) = [''prod''] \<and>
   sd_Name (sd_Filters (Convert id args_two_filters) ! 1) = ''instance-type'' \<and>
   sd_Values (sd_Filters (Convert id args_two_filters) ! 1) = []"
proof -
  have fs: "Filters args_two_filters =
      [\<lparr>Name = ''tag:env'', Values = [''prod'']\<rparr>, \<lparr>Name = ''instance-type'', Values = []\<rparr>]"
    by (simp add: args_two_filters_def)
  have rejected: "err (Validate sdk_us_east_1 args_two_filters) \<noteq> None"
    by (simp add: Validate_def args_two_filters_def args_eu_def)
  have rest: "Region args_two_filters = ''eu-west-1''" "Port args_two_filters = 9100"
    by (simp_all add: args_two_filters_def args_eu_def)
  have all: "\<forall>i<2. sd_Name (sd_Filters (Convert id args_two_filters) ! i) =
        Name (Filters args_two_filters ! i) \<and>
      sd_Values (sd_Filters (Convert id args_two_filters) ! i) =
        Values (Filters args_two_filters ! i)"
    using Convert_copies_every_field [of id args_two_filters] by (simp add: fs)
  have zero: "(0::nat) < 2" and one: "(1::nat) < 2"
    by simp_all
  from all [rule_format, OF zero] all [rule_format, OF one]
    Convert_copies_every_field [of id args_two_filters] rejected rest
  show ?thesis by (simp add: fs)
qed

section \<open>What Validate writes\<close>

text \<open>
  C9. \<^verbatim>\<open>Validate\<close> changes no field of the configuration other than the region: the
  configuration it leaves is the one it was given with the region possibly replaced.
  When the region was set at the start, the configuration is left exactly as it was,
  whether \<^verbatim>\<open>Validate\<close> succeeds or fails.
\<close>

theorem Validate_changes_only_Region:
  "args_after (Validate aws args) = args\<lparr>Region := Region (args_after (Validate aws args))\<rparr> \<and>
   (Region args \<noteq> [] \<longrightarrow> args_after (Validate aws args) = args)"
  by (simp add: Validate_def Let_def split: sum.split)

theorem Validate_changes_only_Region_witness:
  "Region args_eu_no_values = ''eu-west-1'' \<and>
   err (Validate sdk_us_east_1 args_eu_no_values) \<noteq> None \<and>
   args_after (Validate sdk_us_east_1 args_eu_no_values) = args_eu_no_values \<and>
   err (Validate sdk_us_east_1 args_eu) = None \<and>
   args_after (Validate sdk_us_east_1 args_eu) = args_eu"
proof -
  have reg: "Region args_eu_no_values = ''eu-west-1''" "Region args_eu = ''eu-west-1''"
    by (simp_all add: args_eu_no_values_def args_eu_def)
  have res: "err (Validate sdk_us_east_1 args_eu_no_values) \<noteq> None"
    "err (Validate sdk_us_east_1 args_eu) = None"
    by (simp_all add: Validate_def args_eu_no_values_def args_eu_def)
  from Validate_changes_only_Region [of sdk_us_east_1 args_eu_no_values]
    Validate_changes_only_Region [of sdk_us_east_1 args_eu] reg res
  show ?thesis by simp
qed

text \<open>
  C10. \<^verbatim>\<open>Validate\<close> is not atomic on error: there is a configuration with no region
  and a filter without values, and an environment where the probe succeeds, for which
  \<^verbatim>\<open>Validate\<close> returns an error and has nevertheless replaced the region by the probed
  one.
\<close>

theorem Validate_error_after_region_write:
  "\<exists>(aws :: (string, unit, unit) sdk) (args :: unit EC2Arguments) f c out.
     Region args = [] \<and>
     LoadDefaultConfig aws = Inr c \<and> GetRegion aws (NewFromConfig aws c) = Inr out \<and>
     f \<in> set (Filters args) \<and> Values f = [] \<and>
     err (Validate aws args) \<noteq> None \<and>
     Region (args_after (Validate aws args)) = imds_Region out \<and>
     Region (args_after (Validate aws args)) \<noteq> Region args"
proof -
  let ?f = "\<lparr>Name = ''tag:env'', Values = []\<rparr>"
  have "Region args_no_region_no_values = [] \<and>
     LoadDefaultConfig sdk_us_east_1 = Inr () \<and>
     GetRegion sdk_us_east_1 (NewFromConfig sdk_us_east_1 ()) = Inr \<lparr>imds_Region = ''us-east-1''\<rparr> \<and>
     ?f \<in> set (Filters args_no_region_no_values) \<and> Values ?f = [] \<and>
     err (Validate sdk_us_east_1 args_no_region_no_values) \<noteq> None \<and>
     Region (args_after (Validate sdk_us_east_1 args_no_region_no_values)) =
       imds_Region \<lparr>imds_Region = ''us-east-1''\<rparr> \<and>
     Region (args_after (Validate sdk_us_east_1 args_no_region_no_values)) \<noteq>
       Region args_no_region_no_values"
    by (simp add: Validate_def args_no_region_no_values_def args_eu_no_values_def args_eu_def
        sdk_us_east_1_def)
  then show ?thesis by blast
qed

end
